theory Spec2Isabelle
  imports Complex_Main
begin

section \<open>Basic neural network layers of \<^verbatim>\<open>mxnet/gluon/nn/basic_layers.py\<close>\<close>

text \<open>
  A shallow embedding of the layer classes of \<^verbatim>\<open>basic_layers.py\<close>. A class is a record
  of the attributes its \<^verbatim>\<open>__init__\<close> assigns; a method takes \<^verbatim>\<open>self\<close> and returns
  its result together with \<^verbatim>\<open>self\<close> as the call leaves it. A raised exception is the
  \<open>Inl\<close> branch of a sum. Python attribute names lose their leading underscore
  (\<^verbatim>\<open>_rate\<close> is \<open>rate\<close>) and carry a prefix where two classes share a name.
\<close>

subsection \<open>Errors\<close>

text \<open>
  The exceptions of the layers and of what they call, by kind. \<open>ShapeMismatch\<close> is the
  failure of an operator whose operands do not fit each other.
\<close>

datatype error =
    ShapeConflict
  | InferenceError
  | NotDeferrable
  | DuplicateName
  | RankError
  | TypeError
  | TraceError
  | ShapeMismatch

subsection \<open>Parameter and ParameterDict\<close>

text \<open>
  A Parameter as \<^verbatim>\<open>ParameterDict.get\<close> receives it from the layers: the keyword
  arguments are kept as passed. \<open>p_grad_req\<close> is \<open>None\<close> where the call site passes no
  \<^verbatim>\<open>grad_req\<close>; an initializer is its name, \<open>None\<close> for Python's \<^verbatim>\<open>None\<close>;
  a shape is a tuple of Python integers in which 0 stands for an unknown dimension.
\<close>

record Parameter =
  p_name :: string
  p_grad_req :: "string option"
  p_shape :: "int list"
  p_init :: "string option"
  p_allow_deferred_init :: bool

record ParameterDict =
  pd_prefix :: string
  pd_params :: "(string \<times> Parameter) list"

definition ParameterDict_lookup :: "ParameterDict \<Rightarrow> string \<Rightarrow> Parameter option" where
  "ParameterDict_lookup pd full = map_of (pd_params pd) full"

text \<open>
  Modelled from the spec: the shape compatibility test of \<^verbatim>\<open>ParameterDict.get\<close>
  (\<^verbatim>\<open>parameter.py\<close> is not among the sources). Two shapes are compatible when they
  match exactly, or one side has unknown dimensions that the other resolves.
\<close>

definition shape_compatible :: "int list \<Rightarrow> int list \<Rightarrow> bool" where
  "shape_compatible a b = list_all2 (\<lambda>x y. x = y \<or> x = 0 \<or> y = 0) a b"

text \<open>
  Modelled from the spec: \<^verbatim>\<open>ParameterDict.get\<close> (\<^verbatim>\<open>parameter.py\<close> is not among
  the sources). The fully-qualified name is the dict's prefix followed by the short name.
  A name already registered returns the existing Parameter when the shapes are compatible
  and fails with ShapeConflict otherwise; a new name creates the Parameter from the
  arguments and registers it last, so that the dict keeps insertion order. The Parameter
  and the dict after the call are returned.
\<close>

definition ParameterDict_get ::
  "ParameterDict \<Rightarrow> string \<Rightarrow> string option \<Rightarrow> int list \<Rightarrow> string option \<Rightarrow> bool
    \<Rightarrow> error + (Parameter \<times> ParameterDict)" where
  "ParameterDict_get pd name grad_req shp init allow_deferred_init =
     (let full = pd_prefix pd @ name in
      case map_of (pd_params pd) full of
        None \<Rightarrow>
          (let p = \<lparr>p_name = full, p_grad_req = grad_req, p_shape = shp, p_init = init,
                    p_allow_deferred_init = allow_deferred_init\<rparr>
           in Inr (p, pd\<lparr>pd_params := pd_params pd @ [(full, p)]\<rparr>))
      | Some p \<Rightarrow>
          if shape_compatible (p_shape p) shp then Inr (p, pd) else Inl ShapeConflict)"

text \<open>
  Modelled from the spec: the enumeration of trainable Parameters that the gradient
  engine consumes (\<^verbatim>\<open>parameter.py\<close> is not among the sources): the Parameters of the
  dict in insertion order whose gradient mode is not frozen, frozen being
  \<^verbatim>\<open>grad_req='null'\<close>.
\<close>

definition trainable_params :: "ParameterDict \<Rightarrow> (string \<times> Parameter) list" where
  "trainable_params pd = filter (\<lambda>(n, p). p_grad_req p \<noteq> Some ''null'') (pd_params pd)"


text \<open>
  Modelled from the spec: \<^verbatim>\<open>Block.__init__\<close> (\<^verbatim>\<open>block.py\<close> is not among the
  sources), as far as the layers below use it: the Block owns a ParameterDict under its
  prefix unless a dict to share is supplied. The prefix is passed explicitly.
\<close>

definition Block_init :: "string \<Rightarrow> ParameterDict option \<Rightarrow> ParameterDict" where
  "Block_init prefix params =
     (case params of None \<Rightarrow> \<lparr>pd_prefix = prefix, pd_params = []\<rparr> | Some pd \<Rightarrow> pd)"

subsection \<open>Tensors\<close>

text \<open>
  A concrete tensor of the eager backend: its shape and its elements in row-major order.
\<close>

record 'a tensor =
  t_shape :: "nat list"
  t_data :: "'a list"

text \<open>
  A tensor is well formed when it has as many elements as its shape says and no
  dimension is 0 (in a shape, 0 stands for an unknown dimension).
\<close>

definition wf_tensor :: "'a tensor \<Rightarrow> bool" where
  "wf_tensor t = (length (t_data t) = prod_list (t_shape t) \<and> list_all (\<lambda>d. 0 < d) (t_shape t))"

fun flat_index :: "nat list \<Rightarrow> nat list \<Rightarrow> nat" where
  "flat_index (d # ds) (i # idx) = i * prod_list ds + flat_index ds idx"
| "flat_index _ _ = 0"

definition valid_index :: "nat list \<Rightarrow> nat list \<Rightarrow> bool" where
  "valid_index ds idx = list_all2 (\<lambda>i d. i < d) idx ds"

definition elem :: "'a tensor \<Rightarrow> nat list \<Rightarrow> 'a" where
  "elem t idx = t_data t ! flat_index (t_shape t) idx"

subsection \<open>The operator namespace F\<close>

text \<open>
  The keyword dictionaries \<^verbatim>\<open>self._kwargs\<close> of BatchNorm and Embedding, a field for
  each key.
\<close>

record batchnorm_kwargs =
  kw_axis :: int
  kw_eps :: real
  kw_momentum :: real
  kw_fix_gamma :: bool

record embedding_kwargs =
  kw_input_dim :: int
  kw_output_dim :: int
  kw_dtype :: string

text \<open>
  The operators of the namespace \<^verbatim>\<open>F\<close> that the layers call, over the values \<open>'x\<close> of
  the backend bound to it (tensors, or symbols of a graph). Each field takes the
  arguments of the call site in their order: \<open>F_FullyConnected x weight bias no_bias
  num_hidden\<close>, \<open>F_Activation x act_type\<close>, \<open>F_Dropout x p\<close>,
  \<open>F_BatchNorm x gamma beta running_mean running_var kwargs\<close>,
  \<open>F_LeakyReLU x act_type slope\<close>, \<open>F_Embedding x weight kwargs\<close>.
\<close>

record 'x op_namespace =
  F_FullyConnected :: "'x \<Rightarrow> 'x \<Rightarrow> 'x option \<Rightarrow> bool \<Rightarrow> int \<Rightarrow> error + 'x"
  F_Activation :: "'x \<Rightarrow> string \<Rightarrow> error + 'x"
  F_Dropout :: "'x \<Rightarrow> real \<Rightarrow> error + 'x"
  F_BatchNorm :: "'x \<Rightarrow> 'x \<Rightarrow> 'x \<Rightarrow> 'x \<Rightarrow> 'x \<Rightarrow> batchnorm_kwargs \<Rightarrow> error + 'x"
  F_LeakyReLU :: "'x \<Rightarrow> string \<Rightarrow> real \<Rightarrow> error + 'x"
  F_Embedding :: "'x \<Rightarrow> 'x \<Rightarrow> embedding_kwargs \<Rightarrow> error + 'x"

subsection \<open>Sequential and HybridSequential\<close>

text \<open>
  A child Block is what the containers use of it: a callable from the input to the
  output, or to the exception it raises.
\<close>

record 'x Sequential =
  seq_params :: ParameterDict
  seq_children :: "('x \<Rightarrow> error + 'x) list"

record 'x HybridSequential =
  hseq_params :: ParameterDict
  hseq_children :: "('x \<Rightarrow> error + 'x) list"

text \<open>
  Modelled from the spec: \<^verbatim>\<open>Block.register_child\<close> (\<^verbatim>\<open>block.py\<close> is not among the
  sources) appends the block to the children.
\<close>

definition register_child :: "('x \<Rightarrow> error + 'x) list \<Rightarrow> ('x \<Rightarrow> error + 'x) \<Rightarrow> ('x \<Rightarrow> error + 'x) list" where
  "register_child children block = children @ [block]"

text \<open>
  The loop \<^verbatim>\<open>for block in self._children: x = block(x)\<close> followed by
  \<^verbatim>\<open>return x\<close>; an exception of a child ends the loop.
\<close>

fun forward_loop :: "('x \<Rightarrow> error + 'x) list \<Rightarrow> 'x \<Rightarrow> error + 'x" where
  "forward_loop [] x = Inr x"
| "forward_loop (block # rest) x =
     (case block x of Inl e \<Rightarrow> Inl e | Inr y \<Rightarrow> forward_loop rest y)"

definition Sequential_init :: "string \<Rightarrow> ParameterDict option \<Rightarrow> error + 'x Sequential" where
  "Sequential_init prefix params = Inr \<lparr>seq_params = Block_init prefix params, seq_children = []\<rparr>"

definition Sequential_add :: "'x Sequential \<Rightarrow> ('x \<Rightarrow> error + 'x) \<Rightarrow> 'x Sequential" where
  "Sequential_add self block = self\<lparr>seq_children := register_child (seq_children self) block\<rparr>"

definition Sequential_forward :: "'x Sequential \<Rightarrow> 'x \<Rightarrow> (error + 'x) \<times> 'x Sequential" where
  "Sequential_forward self x = (forward_loop (seq_children self) x, self)"

definition HybridSequential_init :: "string \<Rightarrow> ParameterDict option \<Rightarrow> error + 'x HybridSequential" where
  "HybridSequential_init prefix params =
     Inr \<lparr>hseq_params = Block_init prefix params, hseq_children = []\<rparr>"

definition HybridSequential_add :: "'x HybridSequential \<Rightarrow> ('x \<Rightarrow> error + 'x) \<Rightarrow> 'x HybridSequential" where
  "HybridSequential_add self block = self\<lparr>hseq_children := register_child (hseq_children self) block\<rparr>"

definition HybridSequential_hybrid_forward ::
  "'x HybridSequential \<Rightarrow> 'f \<Rightarrow> 'x \<Rightarrow> (error + 'x) \<times> 'x HybridSequential" where
  "HybridSequential_hybrid_forward self F x = (forward_loop (hseq_children self) x, self)"

text \<open>The right-to-left nesting \<^verbatim>\<open>child_n(...child_1(x))\<close> of callables that may raise.\<close>

definition then_call :: "('x \<Rightarrow> error + 'x) \<Rightarrow> error + 'x \<Rightarrow> error + 'x" where
  "then_call block r = (case r of Inl e \<Rightarrow> Inl e | Inr v \<Rightarrow> block v)"

subsection \<open>Activation, Dropout, LeakyReLU\<close>

record Activation =
  act_params :: ParameterDict
  act_type :: string

definition Activation_init :: "string \<Rightarrow> string \<Rightarrow> ParameterDict option \<Rightarrow> error + Activation" where
  "Activation_init activation prefix params =
     Inr \<lparr>act_params = Block_init prefix params, act_type = activation\<rparr>"

definition Activation_hybrid_forward ::
  "Activation \<Rightarrow> 'x op_namespace \<Rightarrow> 'x \<Rightarrow> (error + 'x) \<times> Activation" where
  "Activation_hybrid_forward self F x = (F_Activation F x (act_type self), self)"

record Dropout =
  drop_params :: ParameterDict
  drop_rate :: real

definition Dropout_init :: "real \<Rightarrow> string \<Rightarrow> ParameterDict option \<Rightarrow> error + Dropout" where
  "Dropout_init rate prefix params =
     Inr \<lparr>drop_params = Block_init prefix params, drop_rate = rate\<rparr>"

definition Dropout_hybrid_forward ::
  "Dropout \<Rightarrow> 'x op_namespace \<Rightarrow> 'x \<Rightarrow> (error + 'x) \<times> Dropout" where
  "Dropout_hybrid_forward self F x = (F_Dropout F x (drop_rate self), self)"

record LeakyReLU =
  leaky_params :: ParameterDict
  leaky_alpha :: real

definition LeakyReLU_init :: "real \<Rightarrow> string \<Rightarrow> ParameterDict option \<Rightarrow> error + LeakyReLU" where
  "LeakyReLU_init alpha prefix params =
     Inr \<lparr>leaky_params = Block_init prefix params, leaky_alpha = alpha\<rparr>"

definition LeakyReLU_hybrid_forward ::
  "LeakyReLU \<Rightarrow> 'x op_namespace \<Rightarrow> 'x \<Rightarrow> (error + 'x) \<times> LeakyReLU" where
  "LeakyReLU_hybrid_forward self F x = (F_LeakyReLU F x ''leaky'' (leaky_alpha self), self)"

subsection \<open>Dense\<close>

text \<open>
  \<^verbatim>\<open>self.weight\<close> and \<^verbatim>\<open>self.bias\<close> are references to Parameters of the dict: the
  fully-qualified names under which the dict holds them. \<^verbatim>\<open>self.act\<close> is the
  Activation block or \<^verbatim>\<open>None\<close>.
\<close>

record Dense =
  dense_params :: ParameterDict
  dense_units :: int
  dense_in_units :: int
  dense_weight :: string
  dense_bias :: "string option"
  dense_act :: "Activation option"

text \<open>
  \<^verbatim>\<open>Dense.__init__\<close>. The Activation child is created inside the name scope of the
  layer; its prefix is the layer's prefix followed by the automatic name of the child.
\<close>

definition Dense_init ::
  "int \<Rightarrow> string option \<Rightarrow> bool \<Rightarrow> string option \<Rightarrow> string option \<Rightarrow> int \<Rightarrow> string
    \<Rightarrow> ParameterDict option \<Rightarrow> error + Dense" where
  "Dense_init units activation use_bias weight_initializer bias_initializer in_units prefix params =
     (let pd0 = Block_init prefix params in
      case ParameterDict_get pd0 ''weight'' None [units, in_units] weight_initializer True of
        Inl e \<Rightarrow> Inl e
      | Inr (w, pd1) \<Rightarrow>
          (case (if use_bias
                 then (case ParameterDict_get pd1 ''bias'' None [units] bias_initializer True of
                         Inl e \<Rightarrow> Inl e
                       | Inr (b, pd2) \<Rightarrow> Inr (Some (p_name b), pd2))
                 else Inr (None, pd1)) of
             Inl e \<Rightarrow> Inl e
           | Inr (bias, pd2) \<Rightarrow>
               (case (case activation of
                        Some a \<Rightarrow>
                          (case Activation_init a (prefix @ a @ ''0_'') None of
                             Inl e \<Rightarrow> Inl e
                           | Inr act \<Rightarrow> Inr (Some act))
                      | None \<Rightarrow> Inr None) of
                  Inl e \<Rightarrow> Inl e
                | Inr act \<Rightarrow>
                    Inr \<lparr>dense_params = pd2, dense_units = units, dense_in_units = in_units,
                         dense_weight = p_name w, dense_bias = bias, dense_act = act\<rparr>)))"

text \<open>
  \<^verbatim>\<open>Dense.hybrid_forward\<close>. The call \<^verbatim>\<open>self.act(act)\<close> runs the forward of the
  Activation child under the same \<^verbatim>\<open>F\<close>; the child as that call leaves it stays the
  value of \<^verbatim>\<open>self.act\<close>.
\<close>

definition Dense_hybrid_forward ::
  "Dense \<Rightarrow> 'x op_namespace \<Rightarrow> 'x \<Rightarrow> 'x \<Rightarrow> 'x option \<Rightarrow> (error + 'x) \<times> Dense" where
  "Dense_hybrid_forward self F x weight bias =
     (case (case bias of
              None \<Rightarrow> F_FullyConnected F x weight None True (dense_units self)
            | Some b \<Rightarrow> F_FullyConnected F x weight (Some b) False (dense_units self)) of
        Inl e \<Rightarrow> (Inl e, self)
      | Inr act \<Rightarrow>
          (case dense_act self of
             Some a \<Rightarrow>
               (case Activation_hybrid_forward a F act of
                  (r, a') \<Rightarrow> (r, self\<lparr>dense_act := Some a'\<rparr>))
           | None \<Rightarrow> (Inr act, self)))"




subsection \<open>BatchNorm\<close>

text \<open>
  \<^verbatim>\<open>self.in_channels\<close> is assigned only when \<^verbatim>\<open>in_channels != 0\<close>: \<open>None\<close> is the
  attribute that does not exist.
\<close>

record BatchNorm =
  bn_params :: ParameterDict
  bn_kwargs :: batchnorm_kwargs
  bn_in_channels :: "int option"
  bn_gamma :: string
  bn_beta :: string
  bn_running_mean :: string
  bn_running_var :: string

definition BatchNorm_init ::
  "int \<Rightarrow> real \<Rightarrow> real \<Rightarrow> bool \<Rightarrow> bool \<Rightarrow> string option \<Rightarrow> string option \<Rightarrow> string option
    \<Rightarrow> string option \<Rightarrow> int \<Rightarrow> string \<Rightarrow> ParameterDict option \<Rightarrow> error + BatchNorm" where
  "BatchNorm_init axis momentum epsilon center scale beta_initializer gamma_initializer
       running_mean_initializer running_variance_initializer in_channels prefix params =
     (let pd0 = Block_init prefix params;
          kwargs = \<lparr>kw_axis = axis, kw_eps = epsilon, kw_momentum = momentum,
                    kw_fix_gamma = (\<not> center)\<rparr>;
          inch = (if in_channels \<noteq> 0 then Some in_channels else None)
      in
      case ParameterDict_get pd0 ''gamma'' (Some (if scale then ''write'' else ''null''))
             [in_channels] gamma_initializer True of
        Inl e \<Rightarrow> Inl e
      | Inr (g, pd1) \<Rightarrow>
      (case ParameterDict_get pd1 ''beta'' (Some (if center then ''write'' else ''null''))
              [in_channels] beta_initializer True of
        Inl e \<Rightarrow> Inl e
      | Inr (b, pd2) \<Rightarrow>
      (case ParameterDict_get pd2 ''running_mean'' (Some ''null'')
              [in_channels] running_mean_initializer True of
        Inl e \<Rightarrow> Inl e
      | Inr (rm, pd3) \<Rightarrow>
      (case ParameterDict_get pd3 ''running_var'' (Some ''null'')
              [in_channels] running_variance_initializer True of
        Inl e \<Rightarrow> Inl e
      | Inr (rv, pd4) \<Rightarrow>
          Inr \<lparr>bn_params = pd4, bn_kwargs = kwargs, bn_in_channels = inch,
               bn_gamma = p_name g, bn_beta = p_name b,
               bn_running_mean = p_name rm, bn_running_var = p_name rv\<rparr>))))"

definition BatchNorm_hybrid_forward ::
  "BatchNorm \<Rightarrow> 'x op_namespace \<Rightarrow> 'x \<Rightarrow> 'x \<Rightarrow> 'x \<Rightarrow> 'x \<Rightarrow> 'x \<Rightarrow> (error + 'x) \<times> BatchNorm" where
  "BatchNorm_hybrid_forward self F x gamma beta running_mean running_var =
     (F_BatchNorm F x gamma beta running_mean running_var (bn_kwargs self), self)"

subsection \<open>Embedding\<close>

record Embedding =
  emb_params :: ParameterDict
  emb_kwargs :: embedding_kwargs
  emb_weight :: string


definition Embedding_hybrid_forward ::
  "Embedding \<Rightarrow> 'x op_namespace \<Rightarrow> 'x \<Rightarrow> 'x \<Rightarrow> (error + 'x) \<times> Embedding" where
  "Embedding_hybrid_forward self F x weight = (F_Embedding F x weight (emb_kwargs self), self)"


subsection \<open>Flatten\<close>

text \<open>
  Modelled from the spec: \<^verbatim>\<open>reshape\<close> of the tensor engine (\<^verbatim>\<open>ndarray.py\<close> is not
  among the sources). In the target shape, 0 copies the dimension of the input at the
  same position, -1 stands for the one dimension inferred from the number of elements
  that remain, and a positive entry is the dimension itself. The elements keep their
  row-major order. \<open>reshape_dims\<close> reads the target against the shape of the input, with
  \<open>None\<close> for the dimension to infer.
\<close>

fun reshape_dims :: "nat list \<Rightarrow> int list \<Rightarrow> nat option list option" where
  "reshape_dims src [] = Some []"
| "reshape_dims src (d # ds) =
     (case reshape_dims (tl src) ds of
        None \<Rightarrow> None
      | Some rest \<Rightarrow>
          if d = 0 then (case src of [] \<Rightarrow> None | s # _ \<Rightarrow> Some (Some s # rest))
          else if d = - 1 then Some (None # rest)
          else if 0 < d then Some (Some (nat d) # rest)
          else None)"

definition nd_reshape :: "'a tensor \<Rightarrow> int list \<Rightarrow> error + 'a tensor" where
  "nd_reshape x target =
     (case reshape_dims (t_shape x) target of
        None \<Rightarrow> Inl ShapeMismatch
      | Some dims \<Rightarrow>
          (let known = prod_list (map (\<lambda>d. case d of None \<Rightarrow> 1 | Some n \<Rightarrow> n) dims);
               total = prod_list (t_shape x);
               holes = length (filter (\<lambda>d. d = None) dims)
           in
           if holes = 0 \<and> known = total \<or> holes = 1 \<and> 0 < known \<and> total mod known = 0
           then Inr \<lparr>t_shape = map (\<lambda>d. case d of None \<Rightarrow> total div known | Some n \<Rightarrow> n) dims,
                    t_data = t_data x\<rparr>
           else Inl ShapeMismatch))"

record Flatten =
  flat_params :: ParameterDict

definition Flatten_init :: "string \<Rightarrow> ParameterDict option \<Rightarrow> error + Flatten" where
  "Flatten_init prefix params = Inr \<lparr>flat_params = Block_init prefix params\<rparr>"

definition Flatten_hybrid_forward ::
  "Flatten \<Rightarrow> 'f \<Rightarrow> 'a tensor \<Rightarrow> (error + 'a tensor) \<times> Flatten" where
  "Flatten_hybrid_forward self F x = (nd_reshape x [0, - 1], self)"

subsection \<open>The eager backend\<close>

text \<open>
  Modelled from the spec: the fully-connected operator of the eager backend (the
  operators are not among the sources): \<^verbatim>\<open>input . weight^T + bias\<close> on an input of
  rank 2, and RankError on any other rank. The input is \<open>n\<close> rows of \<open>k\<close> features, the
  weight \<^verbatim>\<open>num_hidden\<close> rows of \<open>k\<close>, the bias (unless \<^verbatim>\<open>no_bias\<close>) \<^verbatim>\<open>num_hidden\<close>
  elements.
\<close>

definition fc_data :: "'a::comm_semiring_1 list \<Rightarrow> 'a list \<Rightarrow> (nat \<Rightarrow> 'a) \<Rightarrow> nat \<Rightarrow> nat \<Rightarrow> nat \<Rightarrow> 'a list" where
  "fc_data xs ws b n k m =
     concat (map (\<lambda>i. map (\<lambda>j. (\<Sum>l\<leftarrow>[0..<k]. xs ! (i * k + l) * ws ! (j * k + l)) + b j) [0..<m])
       [0..<n])"

definition nd_FullyConnected ::
  "'a::comm_semiring_1 tensor \<Rightarrow> 'a tensor \<Rightarrow> 'a tensor option \<Rightarrow> bool \<Rightarrow> int \<Rightarrow> error + 'a tensor" where
  "nd_FullyConnected x weight bias no_bias num_hidden =
     (if length (t_shape x) = 2
      then (let n = t_shape x ! 0; k = t_shape x ! 1; m = nat num_hidden in
            if 0 \<le> num_hidden \<and> t_shape weight = [m, k]
            then (if no_bias
                  then Inr \<lparr>t_shape = [n, m],
                           t_data = fc_data (t_data x) (t_data weight) (\<lambda>j. 0) n k m\<rparr>
                  else (case bias of
                          None \<Rightarrow> Inl ShapeMismatch
                        | Some b \<Rightarrow>
                            if t_shape b = [m]
                            then Inr \<lparr>t_shape = [n, m],
                                     t_data = fc_data (t_data x) (t_data weight) (\<lambda>j. t_data b ! j) n k m\<rparr>
                            else Inl ShapeMismatch))
            else Inl ShapeMismatch)
      else Inl RankError)"

text \<open>
  Modelled from the spec: the activation operator of the eager backend (the operators
  are not among the sources): the function that \<^verbatim>\<open>act_type\<close> names, applied to every
  element; the shape is kept. \<open>actfn\<close> gives the function of each name.
\<close>

definition nd_Activation :: "(string \<Rightarrow> 'a \<Rightarrow> 'a) \<Rightarrow> 'a tensor \<Rightarrow> string \<Rightarrow> error + 'a tensor" where
  "nd_Activation actfn x name = Inr (x\<lparr>t_data := map (actfn name) (t_data x)\<rparr>)"


section \<open>Properties\<close>

subsection \<open>The containers\<close>

lemma then_call_Inl: "then_call block (Inl e) = Inl e"
  by (simp add: then_call_def)

lemma then_call_Inr: "then_call block (Inr v) = block v"
  by (simp add: then_call_def)

lemma fold_then_call_Inl: "fold then_call cs (Inl e) = Inl e"
  by (induction cs) (simp_all add: then_call_Inl)

lemma forward_loop_fold: "forward_loop cs x = fold then_call cs (Inr x)"
proof (induction cs arbitrary: x)
  case Nil
  show ?case by simp
next
  case (Cons c cs)
  show ?case
  proof (cases "c x")
    case (Inl e)
    then show ?thesis by (simp add: then_call_Inr fold_then_call_Inl)
  next
    case (Inr y)
    then show ?thesis by (simp add: then_call_Inr Cons.IH)
  qed
qed

lemma forward_loop_total: "forward_loop (map (\<lambda>f. Inr \<circ> f) fs) x = Inr (fold (\<lambda>f. f) fs x)"
  by (induction fs arbitrary: x) simp_all

text \<open>
  C1: a Sequential, and likewise a HybridSequential, with the registered children
  \<open>[A, B, C]\<close> applied to \<open>x\<close> gives exactly \<open>C (B (A x))\<close>, the exception of a
  child included; in general the forward folds the input through the children in
  registration order. The children \<open>[A, B, C]\<close> are those that three calls of
  \<^verbatim>\<open>add\<close> register in a container that had none.
\<close>

theorem Sequential_composition_law:
  "fst (Sequential_forward (s\<lparr>seq_children := [A, B, C]\<rparr>) x) = then_call C (then_call B (A x))
   \<and> fst (HybridSequential_hybrid_forward (h\<lparr>hseq_children := [A, B, C]\<rparr>) F x)
       = then_call C (then_call B (A x))
   \<and> fst (Sequential_forward (s\<lparr>seq_children := [Inr \<circ> a, Inr \<circ> b, Inr \<circ> c]\<rparr>) x)
       = Inr (c (b (a x)))
   \<and> fst (HybridSequential_hybrid_forward (h\<lparr>hseq_children := [Inr \<circ> a, Inr \<circ> b, Inr \<circ> c]\<rparr>) F x)
       = Inr (c (b (a x)))
   \<and> Sequential_add (Sequential_add (Sequential_add (s\<lparr>seq_children := []\<rparr>) A) B) C
       = s\<lparr>seq_children := [A, B, C]\<rparr>
   \<and> HybridSequential_add (HybridSequential_add (HybridSequential_add (h\<lparr>hseq_children := []\<rparr>) A) B) C
       = h\<lparr>hseq_children := [A, B, C]\<rparr>
   \<and> fst (Sequential_forward s x) = fold then_call (seq_children s) (Inr x)
   \<and> fst (HybridSequential_hybrid_forward h F x) = fold then_call (hseq_children h) (Inr x)"
proof -
  have three: "forward_loop [A, B, C] y = then_call C (then_call B (A y))" for A B C and y :: 'a
    by (simp add: forward_loop_fold then_call_Inr)
  have total: "forward_loop [Inr \<circ> a, Inr \<circ> b, Inr \<circ> c] x = Inr (c (b (a x)))"
    using forward_loop_total [of "[a, b, c]" x] by simp
  have adds: "Sequential_add (Sequential_add (Sequential_add (s\<lparr>seq_children := []\<rparr>) A) B) C
      = s\<lparr>seq_children := [A, B, C]\<rparr>"
    by (simp add: Sequential_add_def register_child_def)
  have hadds: "HybridSequential_add (HybridSequential_add (HybridSequential_add (h\<lparr>hseq_children := []\<rparr>) A) B) C
      = h\<lparr>hseq_children := [A, B, C]\<rparr>"
    by (simp add: HybridSequential_add_def register_child_def)
  show ?thesis
    unfolding Sequential_forward_def HybridSequential_hybrid_forward_def
    using three total adds hadds by (simp add: forward_loop_fold)
qed

text \<open>
  C9: \<^verbatim>\<open>Sequential.forward\<close> and \<^verbatim>\<open>HybridSequential.hybrid_forward\<close> are the same
  fold: on the same list of children and the same input they give the same output, and
  the result of \<^verbatim>\<open>hybrid_forward\<close> is the same for any two operator namespaces
  \<open>F\<close> and \<open>G\<close>, which it never calls.
\<close>

theorem HybridSequential_same_fold:
  "fst (HybridSequential_hybrid_forward (h\<lparr>hseq_children := cs\<rparr>) F x)
     = fst (Sequential_forward (s\<lparr>seq_children := cs\<rparr>) x)
   \<and> HybridSequential_hybrid_forward h F x = HybridSequential_hybrid_forward h G x
   \<and> fst (HybridSequential_hybrid_forward h F x) = forward_loop (hseq_children h) x
   \<and> fst (Sequential_forward s x) = forward_loop (seq_children s) x"
  by (simp add: HybridSequential_hybrid_forward_def Sequential_forward_def)

subsection \<open>ParameterDict\<close>

lemma get_Inr_cases:
  assumes "ParameterDict_get pd name g shp i a = Inr (p, pd')"
  shows "(map_of (pd_params pd) (pd_prefix pd @ name) = None
            \<and> p = \<lparr>p_name = pd_prefix pd @ name, p_grad_req = g, p_shape = shp, p_init = i,
                    p_allow_deferred_init = a\<rparr>
            \<and> pd' = pd\<lparr>pd_params := pd_params pd @ [(pd_prefix pd @ name, p)]\<rparr>)
         \<or> (map_of (pd_params pd) (pd_prefix pd @ name) = Some p \<and> pd' = pd)"
  using assms
  by (auto simp add: ParameterDict_get_def Let_def split: option.splits if_splits)

lemma get_prefix:
  "ParameterDict_get pd name g shp i a = Inr (p, pd') \<Longrightarrow> pd_prefix pd' = pd_prefix pd"
  by (drule get_Inr_cases) auto

lemma get_other_fresh:
  assumes "ParameterDict_get pd name g shp i a = Inr (p, pd')"
    and "map_of (pd_params pd) k = None" and "k \<noteq> pd_prefix pd @ name"
  shows "map_of (pd_params pd') k = None"
  using get_Inr_cases [OF assms(1)] assms(2,3) by (auto simp add: map_of_eq_None_iff)

lemma get_frozen_entries:
  assumes "ParameterDict_get pd name g shp i a = Inr (p, pd')"
    and "\<forall>(n, q) \<in> set (pd_params pd). n = k \<longrightarrow> p_grad_req q = Some ''null''"
    and "k \<noteq> pd_prefix pd @ name \<or> g = Some ''null''"
  shows "\<forall>(n, q) \<in> set (pd_params pd'). n = k \<longrightarrow> p_grad_req q = Some ''null''"
  using get_Inr_cases [OF assms(1)] assms(2,3) by auto

lemma get_registered:
  assumes "ParameterDict_get pd name g shp i a = Inr (p, pd')"
  shows "map_of (pd_params pd') (pd_prefix pd @ name) = Some p"
  using get_Inr_cases [OF assms] by (auto simp add: map_add_def)

lemma get_keeps:
  assumes "ParameterDict_get pd name g shp i a = Inr (p, pd')"
    and "map_of (pd_params pd) k = Some q"
  shows "map_of (pd_params pd') k = Some q"
  using get_Inr_cases [OF assms(1)] assms(2) by auto

lemma frozen_not_trainable:
  assumes "\<forall>(n, q) \<in> set (pd_params pd). n = k \<longrightarrow> p_grad_req q = Some ''null''"
  shows "k \<notin> fst ` set (trainable_params pd)"
  using assms by (auto simp add: trainable_params_def)

subsection \<open>BatchNorm\<close>

text \<open>
  A BatchNorm with a dict of its own is constructed for every choice of the arguments,
  and its gamma and beta are trainable exactly when \<^verbatim>\<open>scale\<close> and \<^verbatim>\<open>center\<close> say so.
\<close>

lemma BatchNorm_init_own_dict:
  "\<exists>bn. BatchNorm_init axis momentum epsilon center scale beta_initializer gamma_initializer
           running_mean_initializer running_variance_initializer in_channels prefix None = Inr bn
      \<and> map fst (pd_params (bn_params bn))
          = [prefix @ ''gamma'', prefix @ ''beta'', prefix @ ''running_mean'',
             prefix @ ''running_var'']
      \<and> map fst (trainable_params (bn_params bn))
          = (if scale then [prefix @ ''gamma''] else []) @ (if center then [prefix @ ''beta''] else [])"
  by (simp add: BatchNorm_init_def Block_init_def ParameterDict_get_def Let_def
      trainable_params_def)

text \<open>
  C2: whatever the flags \<^verbatim>\<open>center\<close> and \<^verbatim>\<open>scale\<close> are, a BatchNorm that creates
  its \<^verbatim>\<open>running_mean\<close> and \<^verbatim>\<open>running_var\<close> Parameters (their names are not yet
  registered in the dict the layer starts from, as in a dict of its own) holds them with
  \<^verbatim>\<open>grad_req='null'\<close>, and neither is in the enumeration of trainable Parameters.
\<close>

theorem BatchNorm_running_stats_frozen:
  assumes init: "BatchNorm_init axis momentum epsilon center scale beta_initializer
      gamma_initializer running_mean_initializer running_variance_initializer in_channels
      prefix params = Inr bn"
    and fresh_mean: "ParameterDict_lookup (Block_init prefix params)
      (pd_prefix (Block_init prefix params) @ ''running_mean'') = None"
    and fresh_var: "ParameterDict_lookup (Block_init prefix params)
      (pd_prefix (Block_init prefix params) @ ''running_var'') = None"
  shows "(\<exists>p. ParameterDict_lookup (bn_params bn) (bn_running_mean bn) = Some p
              \<and> p_grad_req p = Some ''null'')
       \<and> (\<exists>p. ParameterDict_lookup (bn_params bn) (bn_running_var bn) = Some p
              \<and> p_grad_req p = Some ''null'')
       \<and> bn_running_mean bn \<notin> fst ` set (trainable_params (bn_params bn))
       \<and> bn_running_var bn \<notin> fst ` set (trainable_params (bn_params bn))"
proof -
  define pd0 where "pd0 = Block_init prefix params"
  define pre where "pre = pd_prefix pd0"
  from init obtain g pd1 b pd2 rm pd3 rv pd4 where
    g1: "ParameterDict_get pd0 ''gamma'' (Some (if scale then ''write'' else ''null''))
           [in_channels] gamma_initializer True = Inr (g, pd1)"
    and g2: "ParameterDict_get pd1 ''beta'' (Some (if center then ''write'' else ''null''))
           [in_channels] beta_initializer True = Inr (b, pd2)"
    and g3: "ParameterDict_get pd2 ''running_mean'' (Some ''null'')
           [in_channels] running_mean_initializer True = Inr (rm, pd3)"
    and g4: "ParameterDict_get pd3 ''running_var'' (Some ''null'')
           [in_channels] running_variance_initializer True = Inr (rv, pd4)"
    and bn: "bn_params bn = pd4" "bn_running_mean bn = p_name rm" "bn_running_var bn = p_name rv"
    unfolding BatchNorm_init_def pd0_def Let_def
    by (auto split: sum.splits prod.splits)
  have p1: "pd_prefix pd1 = pre" using get_prefix [OF g1] by (simp add: pre_def)
  have p2: "pd_prefix pd2 = pre" using get_prefix [OF g2] p1 by simp
  have p3: "pd_prefix pd3 = pre" using get_prefix [OF g3] p2 by simp
  have m0: "map_of (pd_params pd0) (pre @ ''running_mean'') = None"
    using fresh_mean by (simp add: ParameterDict_lookup_def pd0_def pre_def)
  have v0: "map_of (pd_params pd0) (pre @ ''running_var'') = None"
    using fresh_var by (simp add: ParameterDict_lookup_def pd0_def pre_def)
  have m1: "map_of (pd_params pd1) (pre @ ''running_mean'') = None"
    using get_other_fresh [OF g1 m0] by (simp add: pre_def)
  have m2: "map_of (pd_params pd2) (pre @ ''running_mean'') = None"
    using get_other_fresh [OF g2 m1] by (simp add: p1)
  have v1: "map_of (pd_params pd1) (pre @ ''running_var'') = None"
    using get_other_fresh [OF g1 v0] by (simp add: pre_def)
  have v2: "map_of (pd_params pd2) (pre @ ''running_var'') = None"
    using get_other_fresh [OF g2 v1] by (simp add: p1)
  have v3: "map_of (pd_params pd3) (pre @ ''running_var'') = None"
    using get_other_fresh [OF g3 v2] by (simp add: p2)
  have rm: "p_name rm = pre @ ''running_mean''" "p_grad_req rm = Some ''null''"
    using get_Inr_cases [OF g3] m2 by (auto simp add: p2)
  have rv: "p_name rv = pre @ ''running_var''" "p_grad_req rv = Some ''null''"
    using get_Inr_cases [OF g4] v3 by (auto simp add: p3)
  have look_rm: "map_of (pd_params pd4) (pre @ ''running_mean'') = Some rm"
    using get_keeps [OF g4 get_registered [OF g3]] by (simp add: p2)
  have look_rv: "map_of (pd_params pd4) (pre @ ''running_var'') = Some rv"
    using get_registered [OF g4] by (simp add: p3)
  have fm2: "\<forall>(n, q) \<in> set (pd_params pd2). n = pre @ ''running_mean'' \<longrightarrow> p_grad_req q = Some ''null''"
    using m2 by (force simp add: map_of_eq_None_iff)
  have fm4: "\<forall>(n, q) \<in> set (pd_params pd4). n = pre @ ''running_mean'' \<longrightarrow> p_grad_req q = Some ''null''"
    using get_frozen_entries [OF g4 get_frozen_entries [OF g3 fm2]] by simp
  have fv3: "\<forall>(n, q) \<in> set (pd_params pd3). n = pre @ ''running_var'' \<longrightarrow> p_grad_req q = Some ''null''"
    using v3 by (force simp add: map_of_eq_None_iff)
  have fv4: "\<forall>(n, q) \<in> set (pd_params pd4). n = pre @ ''running_var'' \<longrightarrow> p_grad_req q = Some ''null''"
    using get_frozen_entries [OF g4 fv3] by simp
  show ?thesis
    using look_rm look_rv rm rv frozen_not_trainable [OF fm4] frozen_not_trainable [OF fv4]
    by (simp add: bn ParameterDict_lookup_def)
qed

text \<open>
  The default BatchNorm with a dict of its own: construction succeeds, the running
  statistics are frozen, and the trainable Parameters are gamma and beta.
\<close>

theorem BatchNorm_running_stats_frozen_witness:
  "\<exists>bn. BatchNorm_init 1 (9/10) (1/1000) True True (Some ''zeros'') (Some ''ones'')
           (Some ''zeros'') (Some ''ones'') 0 ''batchnorm0_'' None = Inr bn
      \<and> (\<exists>p. ParameterDict_lookup (bn_params bn) (bn_running_mean bn) = Some p
              \<and> p_grad_req p = Some ''null'')
      \<and> (\<exists>p. ParameterDict_lookup (bn_params bn) (bn_running_var bn) = Some p
              \<and> p_grad_req p = Some ''null'')
      \<and> bn_running_mean bn \<notin> fst ` set (trainable_params (bn_params bn))
      \<and> bn_running_var bn \<notin> fst ` set (trainable_params (bn_params bn))
      \<and> map fst (trainable_params (bn_params bn)) = [''batchnorm0_gamma'', ''batchnorm0_beta'']"
proof -
  obtain bn where init: "BatchNorm_init 1 (9/10) (1/1000) True True (Some ''zeros'') (Some ''ones'')
           (Some ''zeros'') (Some ''ones'') 0 ''batchnorm0_'' None = Inr bn"
    and tr: "map fst (trainable_params (bn_params bn)) = [''batchnorm0_gamma'', ''batchnorm0_beta'']"
    by (simp add: BatchNorm_init_def Block_init_def ParameterDict_get_def Let_def trainable_params_def)
  have f1: "ParameterDict_lookup (Block_init ''batchnorm0_'' None)
      (pd_prefix (Block_init ''batchnorm0_'' None) @ ''running_mean'') = None"
    by (simp add: ParameterDict_lookup_def Block_init_def)
  have f2: "ParameterDict_lookup (Block_init ''batchnorm0_'' None)
      (pd_prefix (Block_init ''batchnorm0_'' None) @ ''running_var'') = None"
    by (simp add: ParameterDict_lookup_def Block_init_def)
  show ?thesis
    apply (rule exI [of _ bn])
    using BatchNorm_running_stats_frozen [OF init f1 f2] init tr by simp
qed

text \<open>
  C4: the scale flag alone decides whether gamma is used, and the center flag alone
  whether beta is. The code gives \<^verbatim>\<open>fix_gamma\<close>, which makes the operator leave gamma
  out, the value \<^verbatim>\<open>not center\<close>: with \<^verbatim>\<open>center=False, scale=True\<close> gamma is
  trainable and yet fixed, and with \<^verbatim>\<open>center=True, scale=False\<close> gamma is frozen and
  yet applied. The forward passes these keyword arguments to \<^verbatim>\<open>F.BatchNorm\<close>.
\<close>

theorem BatchNorm_fix_gamma_follows_center:
  "(\<exists>bn. BatchNorm_init 1 (9/10) (1/1000) False True (Some ''zeros'') (Some ''ones'')
            (Some ''zeros'') (Some ''ones'') 0 ''batchnorm0_'' None = Inr bn
       \<and> kw_fix_gamma (bn_kwargs bn)
       \<and> map_option p_grad_req (ParameterDict_lookup (bn_params bn) (bn_gamma bn))
           = Some (Some ''write'')
       \<and> fst (BatchNorm_hybrid_forward bn F x g b rm rv)
           = F_BatchNorm F x g b rm rv
               \<lparr>kw_axis = 1, kw_eps = 1/1000, kw_momentum = 9/10, kw_fix_gamma = True\<rparr>)
   \<and> (\<exists>bn. BatchNorm_init 1 (9/10) (1/1000) True False (Some ''zeros'') (Some ''ones'')
            (Some ''zeros'') (Some ''ones'') 0 ''batchnorm0_'' None = Inr bn
       \<and> \<not> kw_fix_gamma (bn_kwargs bn)
       \<and> map_option p_grad_req (ParameterDict_lookup (bn_params bn) (bn_gamma bn))
           = Some (Some ''null'')
       \<and> fst (BatchNorm_hybrid_forward bn F x g b rm rv)
           = F_BatchNorm F x g b rm rv
               \<lparr>kw_axis = 1, kw_eps = 1/1000, kw_momentum = 9/10, kw_fix_gamma = False\<rparr>)"
  by (simp add: BatchNorm_init_def Block_init_def ParameterDict_get_def Let_def
      ParameterDict_lookup_def BatchNorm_hybrid_forward_def)

subsection \<open>Dropout\<close>

text \<open>
  C3, as the claim states it, fails: \<^verbatim>\<open>Dropout.__init__\<close> validates nothing, and the
  rate 2 constructs a layer.
\<close>

theorem Dropout_rate_unvalidated_counterexample:
  "\<not> (\<forall>rate prefix params.
        (rate < 0 \<or> 1 < rate) \<longrightarrow> (\<exists>e. Dropout_init rate prefix params = Inl e))"
proof
  assume "\<forall>rate prefix params.
    (rate < 0 \<or> 1 < rate) \<longrightarrow> (\<exists>e. Dropout_init rate prefix params = Inl e)"
  then have "\<exists>e. Dropout_init 2 ''dropout0_'' None = Inl e" by simp
  then show False by (simp add: Dropout_init_def)
qed

text \<open>
  C3, amended: constructing a Dropout layer succeeds for every rate, inside \<open>[0, 1]\<close> or
  not, and stores the rate unchanged; the forward passes the stored rate to
  \<^verbatim>\<open>F.Dropout\<close> as \<^verbatim>\<open>p\<close>.
\<close>

theorem Dropout_init_stores_rate:
  "\<exists>d. Dropout_init rate prefix params = Inr d \<and> drop_rate d = rate
       \<and> fst (Dropout_hybrid_forward d F x) = F_Dropout F x rate"
  by (simp add: Dropout_init_def Dropout_hybrid_forward_def)

subsection \<open>Dense\<close>



lemma length_rows:
  "length (concat (map (\<lambda>i. map (f i) [0..<m]) [0..<n])) = n * m"
  by (induction n) simp_all

lemma nth_rows:
  "i < n \<Longrightarrow> j < m \<Longrightarrow> concat (map (\<lambda>i. map (f i) [0..<m]) [0..<n]) ! (i * m + j) = f i j"
proof (induction n)
  case 0
  then show ?case by simp
next
  case (Suc n)
  show ?case
  proof (cases "i < n")
    case True
    have "i * m + j < Suc i * m" using Suc.prems(2) by simp
    also have "\<dots> \<le> n * m" using True by (intro mult_le_mono1) simp
    finally have "i * m + j < n * m" .
    then show ?thesis
      using Suc.IH [OF True Suc.prems(2)] by (simp add: nth_append length_rows)
  next
    case False
    with Suc.prems(1) have "i = n" by simp
    then show ?thesis
      using Suc.prems(2) by (simp add: nth_append length_rows)
  qed
qed

lemma fc_data_nth:
  "i < n \<Longrightarrow> j < m \<Longrightarrow>
     fc_data xs ws b n k m ! (i * m + j) = (\<Sum>l<k. xs ! (i * k + l) * ws ! (j * k + l)) + b j"
  by (simp add: fc_data_def nth_rows interv_sum_list_conv_sum_set_nat lessThan_atLeast0)

lemma elem_matrix: "t_shape t = [n, k] \<Longrightarrow> elem t [i, l] = t_data t ! (i * k + l)"
  by (simp add: elem_def)

lemma elem_vector: "t_shape t = [m] \<Longrightarrow> elem t [j] = t_data t ! j"
  by (simp add: elem_def)

lemma nd_FullyConnected_rank:
  "length (t_shape x) \<noteq> 2 \<Longrightarrow> nd_FullyConnected x weight bias no_bias num_hidden = Inl RankError"
  by (simp add: nd_FullyConnected_def)

lemma nd_FullyConnected_value:
  assumes "t_shape x = [n, k]" and "t_shape weight = [m, k]"
    and "case bias of None \<Rightarrow> True | Some b \<Rightarrow> t_shape b = [m]"
  shows "nd_FullyConnected x weight bias (bias = None) (int m) =
           Inr \<lparr>t_shape = [n, m],
                t_data = fc_data (t_data x) (t_data weight)
                  (\<lambda>j. case bias of None \<Rightarrow> 0 | Some b \<Rightarrow> t_data b ! j) n k m\<rparr>"
  using assms by (cases bias) (simp_all add: nd_FullyConnected_def Let_def)

text \<open>
  C7: \<^verbatim>\<open>Dense.hybrid_forward\<close> is the fully-connected operator on the input, the
  weight and the bias, without bias exactly when none is given, followed by the
  activation exactly when the layer has one; the layer has a bias exactly when
  \<^verbatim>\<open>use_bias\<close> holds and the activation that was specified. With the operators of the
  eager backend, an input whose rank is not 2 fails with RankError, and an input of
  \<open>n\<close> rows of \<open>k\<close> features gives at row \<open>i\<close> and column \<open>j\<close> the activation of the
  product of row \<open>i\<close> of the input with row \<open>j\<close> of the weight, plus element \<open>j\<close> of the
  bias.
\<close>

theorem Dense_forward_computation:
  "fst (Dense_hybrid_forward self F x weight bias) =
     (case F_FullyConnected F x weight bias (bias = None) (dense_units self) of
        Inl e \<Rightarrow> Inl e
      | Inr v \<Rightarrow> (case dense_act self of None \<Rightarrow> Inr v | Some a \<Rightarrow> F_Activation F v (act_type a)))
   \<and> (\<exists>d. Dense_init units activation use_bias weight_initializer bias_initializer in_units
             prefix None = Inr d
          \<and> dense_units d = units
          \<and> (dense_bias d = None) = (\<not> use_bias)
          \<and> map_option act_type (dense_act d) = activation)
   \<and> (F_FullyConnected F = nd_FullyConnected \<and> length (t_shape x) \<noteq> 2 \<longrightarrow>
         fst (Dense_hybrid_forward self F x weight bias) = Inl RankError)
   \<and> (F_FullyConnected F = nd_FullyConnected \<and> F_Activation F = nd_Activation actfn
        \<and> t_shape x = [n, k] \<and> t_shape weight = [m, k] \<and> dense_units self = int m
        \<and> (case bias of None \<Rightarrow> True | Some b \<Rightarrow> t_shape b = [m]) \<longrightarrow>
         (\<exists>y. fst (Dense_hybrid_forward self F x weight bias) = Inr y
            \<and> t_shape y = [n, m]
            \<and> (\<forall>i j. i < n \<and> j < m \<longrightarrow>
                 elem y [i, j] =
                   (case dense_act self of None \<Rightarrow> (\<lambda>v. v) | Some a \<Rightarrow> actfn (act_type a))
                     ((\<Sum>l<k. elem x [i, l] * elem weight [j, l])
                       + (case bias of None \<Rightarrow> 0 | Some b \<Rightarrow> elem b [j])))))"
proof (intro conjI impI)
  show "fst (Dense_hybrid_forward self F x weight bias) =
     (case F_FullyConnected F x weight bias (bias = None) (dense_units self) of
        Inl e \<Rightarrow> Inl e
      | Inr v \<Rightarrow> (case dense_act self of None \<Rightarrow> Inr v | Some a \<Rightarrow> F_Activation F v (act_type a)))"
    by (cases bias; cases "dense_act self")
       (simp_all add: Dense_hybrid_forward_def Activation_hybrid_forward_def split: sum.splits)
next
  show "\<exists>d. Dense_init units activation use_bias weight_initializer bias_initializer in_units
             prefix None = Inr d
          \<and> dense_units d = units
          \<and> (dense_bias d = None) = (\<not> use_bias)
          \<and> map_option act_type (dense_act d) = activation"
    by (cases use_bias; cases activation)
       (simp_all add: Dense_init_def Block_init_def ParameterDict_get_def Let_def
          Activation_init_def)
next
  assume "F_FullyConnected F = nd_FullyConnected \<and> length (t_shape x) \<noteq> 2"
  then show "fst (Dense_hybrid_forward self F x weight bias) = Inl RankError"
    by (cases bias) (simp_all add: Dense_hybrid_forward_def nd_FullyConnected_rank)
next
  assume h: "F_FullyConnected F = nd_FullyConnected \<and> F_Activation F = nd_Activation actfn
        \<and> t_shape x = [n, k] \<and> t_shape weight = [m, k] \<and> dense_units self = int m
        \<and> (case bias of None \<Rightarrow> True | Some b \<Rightarrow> t_shape b = [m])"
  then have fc: "F_FullyConnected F = nd_FullyConnected"
    and ac: "F_Activation F = nd_Activation actfn" by simp_all
  define z where "z = \<lparr>t_shape = [n, m],
      t_data = fc_data (t_data x) (t_data weight)
        (\<lambda>j. case bias of None \<Rightarrow> 0 | Some b \<Rightarrow> t_data b ! j) n k m\<rparr>"
  have val: "nd_FullyConnected x weight bias (bias = None) (int m) = Inr z"
    using h nd_FullyConnected_value [of x n k weight m bias] by (simp add: z_def)
  have call: "(case bias of
              None \<Rightarrow> F_FullyConnected F x weight None True (dense_units self)
            | Some b \<Rightarrow> F_FullyConnected F x weight (Some b) False (dense_units self)) = Inr z"
    using val h by (cases bias) (simp_all add: fc)
  have bj: "(case bias of None \<Rightarrow> 0 | Some b \<Rightarrow> t_data b ! j)
      = (case bias of None \<Rightarrow> 0 | Some b \<Rightarrow> elem b [j])" for j
    using h by (cases bias) (simp_all add: elem_vector)
  have zel: "elem z [i, j] = (\<Sum>l<k. elem x [i, l] * elem weight [j, l])
      + (case bias of None \<Rightarrow> 0 | Some b \<Rightarrow> elem b [j])" if "i < n" "j < m" for i j
  proof -
    have "elem z [i, j] = t_data z ! (i * m + j)"
      by (simp add: elem_matrix z_def)
    also have "\<dots> = (\<Sum>l<k. t_data x ! (i * k + l) * t_data weight ! (j * k + l))
        + (case bias of None \<Rightarrow> 0 | Some b \<Rightarrow> t_data b ! j)"
      using that by (simp add: z_def fc_data_nth)
    finally show ?thesis
      using h by (simp add: elem_matrix bj)
  qed
  show "\<exists>y. fst (Dense_hybrid_forward self F x weight bias) = Inr y
             \<and> t_shape y = [n, m]
             \<and> (\<forall>i j. i < n \<and> j < m \<longrightarrow>
                  elem y [i, j] =
                    (case dense_act self of None \<Rightarrow> (\<lambda>v. v) | Some a \<Rightarrow> actfn (act_type a))
                      ((\<Sum>l<k. elem x [i, l] * elem weight [j, l])
                        + (case bias of None \<Rightarrow> 0 | Some b \<Rightarrow> elem b [j])))"
  proof (cases "dense_act self")
    case None
    have "fst (Dense_hybrid_forward self F x weight bias) = Inr z"
      using None by (simp add: Dense_hybrid_forward_def call)
    then show ?thesis
      using None zel by (auto simp add: z_def)
  next
    case (Some a)
    define y where "y = z\<lparr>t_data := map (actfn (act_type a)) (t_data z)\<rparr>"
    have fwd: "fst (Dense_hybrid_forward self F x weight bias) = Inr y"
      using Some
      by (simp add: Dense_hybrid_forward_def call Activation_hybrid_forward_def ac
          nd_Activation_def y_def)
    have len: "length (t_data z) = n * m"
      by (simp add: z_def fc_data_def length_rows)
    have yel: "elem y [i, j] = actfn (act_type a) (elem z [i, j])" if "i < n" "j < m" for i j
    proof -
      have "i * m + j < Suc i * m" using that(2) by simp
      also have "\<dots> \<le> n * m" using that(1) by (intro mult_le_mono1) simp
      finally have "i * m + j < length (t_data z)" using len by simp
      then show ?thesis
        by (simp add: elem_def y_def z_def)
    qed
    show ?thesis
      using Some fwd yel zel by (auto simp add: y_def z_def)
  qed
qed

text \<open>
  A layer of two units with bias and \<^verbatim>\<open>relu\<close> on integer tensors: an input of rank 3
  fails with RankError, and the input \<^verbatim>\<open>[[1, 2, 3], [4, 5, 6]]\<close> gives 8 and 0 in its
  second row.
\<close>

theorem Dense_forward_computation_witness:
  "fst (Dense_hybrid_forward
          \<lparr>dense_params = \<lparr>pd_prefix = ''dense0_'', pd_params = []\<rparr>, dense_units = 2,
            dense_in_units = 0, dense_weight = ''dense0_weight'',
            dense_bias = Some ''dense0_bias'',
            dense_act = Some \<lparr>act_params = \<lparr>pd_prefix = ''dense0_relu0_'', pd_params = []\<rparr>,
                              act_type = ''relu''\<rparr>\<rparr>
          \<lparr>F_FullyConnected = nd_FullyConnected,
            F_Activation = nd_Activation (\<lambda>name v. if name = ''relu'' then max 0 v else v),
            F_Dropout = (\<lambda>x p. Inr x),
            F_BatchNorm = (\<lambda>x g b rm rv kw. Inr x),
            F_LeakyReLU = (\<lambda>x a s. Inr x),
            F_Embedding = (\<lambda>x w kw. Inr x)\<rparr>
          \<lparr>t_shape = [1, 2, 3], t_data = [1, 2, 3, 4, 5, 6 :: int]\<rparr>
          \<lparr>t_shape = [2, 3], t_data = [1, 0, - 1, 0, 1, 0]\<rparr>
          (Some \<lparr>t_shape = [2], t_data = [10, - 20]\<rparr>)) = Inl RankError
   \<and> (\<exists>y. fst (Dense_hybrid_forward
          \<lparr>dense_params = \<lparr>pd_prefix = ''dense0_'', pd_params = []\<rparr>, dense_units = 2,
            dense_in_units = 0, dense_weight = ''dense0_weight'',
            dense_bias = Some ''dense0_bias'',
            dense_act = Some \<lparr>act_params = \<lparr>pd_prefix = ''dense0_relu0_'', pd_params = []\<rparr>,
                              act_type = ''relu''\<rparr>\<rparr>
          \<lparr>F_FullyConnected = nd_FullyConnected,
            F_Activation = nd_Activation (\<lambda>name v. if name = ''relu'' then max 0 v else v),
            F_Dropout = (\<lambda>x p. Inr x),
            F_BatchNorm = (\<lambda>x g b rm rv kw. Inr x),
            F_LeakyReLU = (\<lambda>x a s. Inr x),
            F_Embedding = (\<lambda>x w kw. Inr x)\<rparr>
          \<lparr>t_shape = [2, 3], t_data = [1, 2, 3, 4, 5, 6 :: int]\<rparr>
          \<lparr>t_shape = [2, 3], t_data = [1, 0, - 1, 0, 1, 0]\<rparr>
          (Some \<lparr>t_shape = [2], t_data = [10, - 20]\<rparr>)) = Inr y
        \<and> t_shape y = [2, 2] \<and> elem y [1, 0] = 8 \<and> elem y [1, 1] = 0)"
proof -
  define self where "self =
          \<lparr>dense_params = \<lparr>pd_prefix = ''dense0_'', pd_params = []\<rparr>, dense_units = 2,
            dense_in_units = 0, dense_weight = ''dense0_weight'',
            dense_bias = Some ''dense0_bias'',
            dense_act = Some \<lparr>act_params = \<lparr>pd_prefix = ''dense0_relu0_'', pd_params = []\<rparr>,
                              act_type = ''relu''\<rparr>\<rparr>"
  define relu :: "string \<Rightarrow> int \<Rightarrow> int" where
    "relu = (\<lambda>name v. if name = ''relu'' then max 0 v else v)"
  define F :: "int tensor op_namespace" where "F =
          \<lparr>F_FullyConnected = nd_FullyConnected,
            F_Activation = nd_Activation relu,
            F_Dropout = (\<lambda>x p. Inr x),
            F_BatchNorm = (\<lambda>x g b rm rv kw. Inr x),
            F_LeakyReLU = (\<lambda>x a s. Inr x),
            F_Embedding = (\<lambda>x w kw. Inr x)\<rparr>"
  define x3 :: "int tensor" where "x3 = \<lparr>t_shape = [1, 2, 3], t_data = [1, 2, 3, 4, 5, 6]\<rparr>"
  define x :: "int tensor" where "x = \<lparr>t_shape = [2, 3], t_data = [1, 2, 3, 4, 5, 6]\<rparr>"
  define w :: "int tensor" where "w = \<lparr>t_shape = [2, 3], t_data = [1, 0, - 1, 0, 1, 0]\<rparr>"
  define b :: "int tensor" where "b = \<lparr>t_shape = [2], t_data = [10, - 20]\<rparr>"
  have rank: "F_FullyConnected F = nd_FullyConnected \<and> length (t_shape x3) \<noteq> 2"
    by (simp add: F_def x3_def)
  have shapes: "F_FullyConnected F = nd_FullyConnected \<and> F_Activation F = nd_Activation relu
        \<and> t_shape x = [2, 3] \<and> t_shape w = [2, 3] \<and> dense_units self = int 2
        \<and> (case Some b of None \<Rightarrow> True | Some b \<Rightarrow> t_shape b = [2])"
    by (simp add: F_def x_def w_def b_def self_def)
  have e1: "fst (Dense_hybrid_forward self F x3 w (Some b)) = Inl RankError"
    using Dense_forward_computation [of self F x3 w "Some b"] rank by blast
  from Dense_forward_computation [of self F x w "Some b" _ _ _ _ _ _ _ relu 2 3 2] shapes
  obtain y where y: "fst (Dense_hybrid_forward self F x w (Some b)) = Inr y"
    "t_shape y = [2, 2]"
    "\<forall>i j. i < 2 \<and> j < 2 \<longrightarrow>
        elem y [i, j] =
          (case dense_act self of None \<Rightarrow> (\<lambda>v. v) | Some a \<Rightarrow> relu (act_type a))
            ((\<Sum>l<3. elem x [i, l] * elem w [j, l])
              + (case Some b of None \<Rightarrow> 0 | Some b \<Rightarrow> elem b [j]))"
    by blast
  have three: "{..<3::nat} = {0, 1, 2}" by auto
  have v10: "elem y [1, 0] = 8"
    using y(3) [rule_format, of 1 0]
    by (simp add: self_def relu_def elem_def x_def w_def b_def three)
  have v11: "elem y [1, 1] = 0"
    using y(3) [rule_format, of 1 1]
    by (simp add: self_def relu_def elem_def x_def w_def b_def three)
  show ?thesis
    using e1 y(1,2) v10 v11
    unfolding self_def F_def relu_def x3_def x_def w_def b_def by blast
qed

subsection \<open>Embedding\<close>




subsection \<open>Flatten\<close>

lemma flat_index_bound:
  "valid_index ds idx \<Longrightarrow> flat_index ds idx < prod_list ds"
  unfolding valid_index_def
proof (induction idx ds rule: list_all2_induct)
  case Nil
  then show ?case by simp
next
  case (Cons i idx d ds)
  have "i * prod_list ds + flat_index ds idx < Suc i * prod_list ds"
    using Cons.IH by simp
  also have "\<dots> \<le> d * prod_list ds"
    using Cons.hyps(1) by (intro mult_le_mono1) simp
  finally show ?case by simp
qed

lemma reshape_flatten:
  assumes "t_shape x = N # ds" and "0 < N"
  shows "nd_reshape x [0, - 1] = Inr \<lparr>t_shape = [N, prod_list ds], t_data = t_data x\<rparr>"
  using assms by (simp add: nd_reshape_def Let_def)

text \<open>
  C6: on a well-formed input of shape \<^verbatim>\<open>(N, d1, ..., dk)\<close> Flatten gives a well-formed
  output of shape \<^verbatim>\<open>(N, d1 * ... * dk)\<close>; its element at \<open>(n, j)\<close>, with \<open>j\<close> the
  row-major index of \<open>(i1, ..., ik)\<close> in the dimensions \<open>1..k\<close>, is the element of the
  input at \<open>(n, i1, ..., ik)\<close>. The first dimension is kept.
\<close>

theorem Flatten_shape_and_elements:
  assumes wf: "wf_tensor x" and shp: "t_shape x = N # ds"
  shows "\<exists>y. Flatten_hybrid_forward self F x = (Inr y, self)
      \<and> t_shape y = [N, prod_list ds]
      \<and> wf_tensor y
      \<and> (\<forall>n idx. n < N \<and> valid_index ds idx \<longrightarrow>
            flat_index ds idx < prod_list ds
            \<and> elem y [n, flat_index ds idx] = elem x (n # idx))
      \<and> (\<forall>n j. n < N \<and> j < prod_list ds \<longrightarrow>
            elem y [n, j] = t_data x ! (n * prod_list ds + j))"
proof -
  define y where "y = \<lparr>t_shape = [N, prod_list ds], t_data = t_data x\<rparr>"
  have pos: "0 < N" "list_all (\<lambda>d. 0 < d) ds"
    using wf shp by (simp_all add: wf_tensor_def)
  have fwd: "Flatten_hybrid_forward self F x = (Inr y, self)"
    using reshape_flatten [OF shp pos(1)] by (simp add: Flatten_hybrid_forward_def y_def)
  have "0 < prod_list ds"
    using pos(2) by (induction ds) simp_all
  then have wfy: "wf_tensor y"
    using wf shp pos(1) by (simp add: wf_tensor_def y_def)
  have el: "elem y [n, flat_index ds idx] = elem x (n # idx)" for n idx
    by (simp add: elem_def y_def shp)
  have flat: "elem y [n, j] = t_data x ! (n * prod_list ds + j)" for n j
    by (simp add: elem_def y_def)
  show ?thesis
    using fwd wfy el flat flat_index_bound by (auto simp add: y_def)
qed

text \<open>
  The input of shape \<^verbatim>\<open>(2, 2, 3)\<close> holding 0 to 11: the output has the shape
  \<^verbatim>\<open>(2, 6)\<close>, and its element at \<^verbatim>\<open>(1, 5)\<close> is the element of the input at
  \<^verbatim>\<open>(1, 1, 2)\<close>.
\<close>

theorem Flatten_shape_and_elements_witness:
  "wf_tensor \<lparr>t_shape = [2, 2, 3], t_data = [0, 1, 2, 3, 4, 5, 6, 7, 8, 9, 10, 11 :: int]\<rparr>
   \<and> (\<exists>y. Flatten_hybrid_forward \<lparr>flat_params = \<lparr>pd_prefix = ''flatten0_'', pd_params = []\<rparr>\<rparr> ()
             \<lparr>t_shape = [2, 2, 3], t_data = [0, 1, 2, 3, 4, 5, 6, 7, 8, 9, 10, 11 :: int]\<rparr>
           = (Inr y, \<lparr>flat_params = \<lparr>pd_prefix = ''flatten0_'', pd_params = []\<rparr>\<rparr>)
        \<and> t_shape y = [2, 6]
        \<and> elem y [1, 5] = 11
        \<and> elem \<lparr>t_shape = [2, 2, 3], t_data = [0, 1, 2, 3, 4, 5, 6, 7, 8, 9, 10, 11 :: int]\<rparr> [1, 1, 2] = 11)"
proof -
  define x :: "int tensor" where
    "x = \<lparr>t_shape = [2, 2, 3], t_data = [0, 1, 2, 3, 4, 5, 6, 7, 8, 9, 10, 11]\<rparr>"
  define self where "self = \<lparr>flat_params = \<lparr>pd_prefix = ''flatten0_'', pd_params = []\<rparr>\<rparr>"
  have wf: "wf_tensor x" by (simp add: wf_tensor_def x_def)
  have shp: "t_shape x = 2 # [2, 3]" by (simp add: x_def)
  have vi: "(1::nat) < 2 \<and> valid_index [2, 3] [1, 2]" by (simp add: valid_index_def)
  have fi: "flat_index [2, 3] [1, 2] = 5" by simp
  have ex: "elem x [1, 1, 2] = 11" by (simp add: elem_def x_def)
  from Flatten_shape_and_elements [OF wf shp, of self "()"]
  obtain y where y: "Flatten_hybrid_forward self () x = (Inr y, self)"
    "t_shape y = [2, prod_list [2, 3]]"
    "\<forall>n idx. n < 2 \<and> valid_index [2, 3] idx \<longrightarrow>
        flat_index [2, 3] idx < prod_list [2, 3]
        \<and> elem y [n, flat_index [2, 3] idx] = elem x (n # idx)"
    by blast
  from y(3) vi have "elem y [1, flat_index [2, 3] [1, 2]] = elem x [1, 1, 2]" by blast
  then have "elem y [1, 5] = 11" using ex by (simp only: fi)
  then show ?thesis
    using wf y(1,2) ex unfolding x_def self_def by auto
qed

subsection \<open>The frame of the forward methods\<close>

text \<open>
  C10: \<^verbatim>\<open>forward\<close> or \<^verbatim>\<open>hybrid_forward\<close> of every layer of the file leaves the layer
  as it was, for every input: the children, the configuration fields, the ParameterDict
  and the references to the Parameters.
\<close>

theorem forward_frame:
  "snd (Sequential_forward seq x) = seq
   \<and> snd (HybridSequential_hybrid_forward hseq G x) = hseq
   \<and> snd (Dense_hybrid_forward dense F x weight bias) = dense
   \<and> snd (Activation_hybrid_forward act F x) = act
   \<and> snd (Dropout_hybrid_forward dropout F x) = dropout
   \<and> snd (BatchNorm_hybrid_forward bn F x gamma beta running_mean running_var) = bn
   \<and> snd (LeakyReLU_hybrid_forward leaky F x) = leaky
   \<and> snd (Embedding_hybrid_forward emb F x weight) = emb
   \<and> snd (Flatten_hybrid_forward flat G t) = flat"
proof -
  have act: "snd (Activation_hybrid_forward a F y) = a" for a y
    by (simp add: Activation_hybrid_forward_def)
  have dense: "snd (Dense_hybrid_forward dense F x weight bias) = dense"
  proof (cases "dense_act dense")
    case None
    then show ?thesis
      by (simp add: Dense_hybrid_forward_def split: sum.splits option.splits)
  next
    case (Some a)
    have same: "dense\<lparr>dense_act := Some a\<rparr> = dense"
      using Some by simp
    show ?thesis
      using Some same
      by (simp add: Dense_hybrid_forward_def Activation_hybrid_forward_def
          split: sum.splits option.splits)
  qed
  show ?thesis
    using dense act
    by (simp add: Sequential_forward_def HybridSequential_hybrid_forward_def
        Dropout_hybrid_forward_def BatchNorm_hybrid_forward_def LeakyReLU_hybrid_forward_def
        Embedding_hybrid_forward_def Flatten_hybrid_forward_def)
qed

end
